theory Spec2Isabelle
  imports Main "HOL-Library.Word" "HOL-Library.Signed_Division"
begin

unbundle bit_operations_syntax

section \<open>Values of the Go program\<close>

type_synonym byte = "8 word"
type_synonym int64 = "64 word"
type_synonym uint64 = "64 word"

text \<open>
  An error value of the Go program is a value of \<open>error\<close>; the two errors that \<open>Save\<close>
  makes with \<open>errors.New\<close> from the message of another error hold that error.
  A run-time panic is a value of the model too. An index or slice expression out of
  range panics; \<open>uuid.Must\<close> panics with the error it is given.
\<close>

datatype error =
    ErrTooShort
  | ErrUUIDLength nat
  | ErrNoCookie
  | CorruptInputError
  | EOF
  | ErrUnexpectedEOF
  | CouldntGetRandomNonce error
  | CouldntEncodeSession error

datatype panic =
    IndexOutOfRange
  | SliceBoundsOutOfRange
  | PanicError error

text \<open>
  The slice expression \<open>a[lo:hi]\<close> on a slice whose capacity is not known to the model:
  in range when \<open>lo \<le> hi \<le> len(a)\<close>, a panic otherwise.
\<close>

definition subslice :: "'a list \<Rightarrow> nat \<Rightarrow> nat \<Rightarrow> panic + 'a list" where
  "subslice a lo hi =
     (if lo \<le> hi \<and> hi \<le> length a then Inr (take (hi - lo) (drop lo a))
      else Inl SliceBoundsOutOfRange)"

subsection \<open>encoding/binary: big-endian 64-bit integers\<close>

text \<open>
  \<open>binary.BigEndian.Uint64(b)\<close> reads \<open>b[0..7]\<close> (the access \<open>b[7]\<close> panics on a
  shorter slice); \<open>binary.BigEndian.PutUint64(b, v)\<close> writes them.
\<close>

fun BigEndian_Uint64 :: "byte list \<Rightarrow> panic + uint64" where
  "BigEndian_Uint64 (b0 # b1 # b2 # b3 # b4 # b5 # b6 # b7 # _) =
     Inr (ucast b7 OR push_bit 8 (ucast b6) OR push_bit 16 (ucast b5)
          OR push_bit 24 (ucast b4) OR push_bit 32 (ucast b3) OR push_bit 40 (ucast b2)
          OR push_bit 48 (ucast b1) OR push_bit 56 (ucast b0))"
| "BigEndian_Uint64 _ = Inl IndexOutOfRange"

definition BigEndian_PutUint64 :: "byte list \<Rightarrow> uint64 \<Rightarrow> panic + byte list" where
  "BigEndian_PutUint64 b v =
     (if length b < 8 then Inl IndexOutOfRange
      else Inr ([ucast (drop_bit 56 v), ucast (drop_bit 48 v), ucast (drop_bit 40 v),
                 ucast (drop_bit 32 v), ucast (drop_bit 24 v), ucast (drop_bit 16 v),
                 ucast (drop_bit 8 v), ucast v] @ drop 8 b))"

subsection \<open>time: instants and durations\<close>

text \<open>
  A \<open>time.Time\<close> is an instant: \<open>sec\<close> is the library's signed 64-bit count of seconds
  since January 1 of year 1 (what \<open>t.sec()\<close> returns), \<open>nsec\<close> the nanoseconds within
  the second. The zero value \<open>time.Time{}\<close> has both 0. The location and the monotonic
  clock reading are not modelled: the program compares and subtracts instants only, and
  never two readings of the monotonic clock.
  A \<open>time.Duration\<close> is a signed 64-bit count of nanoseconds.
\<close>

record Time =
  sec :: int64
  nsec :: nat

type_synonym Duration = int64

definition unixToInternal :: int64 where
  "unixToInternal = 62135596800"

definition internalToUnix :: int64 where
  "internalToUnix = - unixToInternal"

definition Second :: Duration where
  "Second = 1000000000"

definition minDuration :: int where
  "minDuration = - (2 ^ 63)"

definition maxDuration :: int where
  "maxDuration = 2 ^ 63 - 1"

definition zeroTime :: Time where
  "zeroTime = \<lparr>sec = 0, nsec = 0\<rparr>"

definition unixTime :: "int64 \<Rightarrow> nat \<Rightarrow> Time" where
  "unixTime s n = \<lparr>sec = s + unixToInternal, nsec = n\<rparr>"

text \<open>\<open>time.Unix(sec, nsec)\<close>: \<open>nsec\<close> outside \<open>[0, 999999999]\<close> is carried into \<open>sec\<close>.\<close>

definition time_Unix :: "int64 \<Rightarrow> int64 \<Rightarrow> Time" where
  "time_Unix s ns =
     (if sint ns < 0 \<or> sint ns \<ge> 1000000000 then
        (let n = sint ns sdiv 1000000000;
             s1 = s + word_of_int n;
             ns1 = sint ns - n * 1000000000
         in if ns1 < 0 then unixTime (s1 - 1) (nat (ns1 + 1000000000))
            else unixTime s1 (nat ns1))
      else unixTime s (nat (sint ns)))"

text \<open>\<open>t.Unix()\<close>: the seconds since January 1, 1970.\<close>

definition Time_Unix :: "Time \<Rightarrow> int64" where
  "Time_Unix t = sec t + internalToUnix"

text \<open>
  \<open>t.Sub(u)\<close>: the duration \<open>t - u\<close>; when it does not fit a \<open>Duration\<close>, the least or
  the greatest \<open>Duration\<close>.
\<close>

definition instant :: "Time \<Rightarrow> int" where
  "instant t = sint (sec t) * 1000000000 + int (nsec t)"

definition Time_Sub :: "Time \<Rightarrow> Time \<Rightarrow> Duration" where
  "Time_Sub t u =
     (let d = instant t - instant u
      in if d < minDuration then word_of_int minDuration
         else if maxDuration < d then word_of_int maxDuration
         else word_of_int d)"

text \<open>
  \<open>t.Add(d)\<close>: the seconds and nanoseconds of \<open>d\<close> are added apart, with a carry; the
  count of seconds stops at the ends of its range (\<open>addSec\<close>).
\<close>

definition addSec :: "int64 \<Rightarrow> int \<Rightarrow> int64" where
  "addSec ext d =
     (let sum = ext + word_of_int d
      in if (ext <s sum) = (0 < d) then sum
         else if 0 < d then word_of_int (2 ^ 63 - 1)
         else word_of_int (- (2 ^ 63 - 1)))"

definition Time_Add :: "Time \<Rightarrow> Duration \<Rightarrow> Time" where
  "Time_Add t d =
     (let dsec = sint d sdiv 1000000000;
          ns = int (nsec t) + sint d smod 1000000000
      in if ns \<ge> 1000000000 then \<lparr>sec = addSec (sec t) (dsec + 1), nsec = nat (ns - 1000000000)\<rparr>
         else if ns < 0 then \<lparr>sec = addSec (sec t) (dsec - 1), nsec = nat (ns + 1000000000)\<rparr>
         else \<lparr>sec = addSec (sec t) dsec, nsec = nat ns\<rparr>)"

subsection \<open>uuid: 128-bit identifiers\<close>

text \<open>
  \<open>uuid.UUID\<close> is the array type \<open>[16]byte\<close>: a value has 16 bytes by its type.
  \<open>Rep_uuid u\<close> is the slice \<open>u[:]\<close>.
\<close>

typedef uuid = "{bs :: byte list. length bs = 16}"
  by (rule exI [of _ "replicate 16 0"]) simp

definition uuid_Nil :: uuid where
  "uuid_Nil = Abs_uuid (replicate 16 0)"

text \<open>
  Modelled from the spec: \<open>uuid.FromBytes\<close> belongs to the package
  \<open>github.com/satori/go.uuid\<close>, which is not among the sources. The specification has an
  identifier parse when it is a well-formed 128-bit value and fail with a parse error
  otherwise: the input must be exactly 16 bytes long, and is copied.
\<close>

definition uuid_FromBytes :: "byte list \<Rightarrow> uuid \<times> error option" where
  "uuid_FromBytes input =
     (if length input \<noteq> 16 then (uuid_Nil, Some (ErrUUIDLength (length input)))
      else (Abs_uuid input, None))"

section \<open>The session codec\<close>

record Session =
  Valid :: bool
  Time :: Time
  SID :: uuid
  UID :: uuid
  RealUID :: uuid
  State :: "byte list"

text \<open>The zero value of the struct: \<open>Session{}\<close>, and \<open>var ss Session\<close>.\<close>

definition zeroSession :: Session where
  "zeroSession =
     \<lparr>Valid = False, Time = zeroTime, SID = uuid_Nil, UID = uuid_Nil, RealUID = uuid_Nil,
      State = []\<rparr>"

text \<open>
  \<open>func (s *Session) UnmarshalBinary(data []byte) error\<close>. The receiver is passed in and
  returned with the error; a panic returns neither.
\<close>

definition UnmarshalBinary :: "Session \<Rightarrow> byte list \<Rightarrow> panic + (Session \<times> error option)" where
  "UnmarshalBinary s data =
     (if length data < 8 + 16 + 16 + 16 then Inr (s, Some ErrTooShort)
      else case subslice data 8 24 of Inl p \<Rightarrow> Inl p | Inr b1 \<Rightarrow>
        (case uuid_FromBytes b1 of (_, Some err) \<Rightarrow> Inr (s, Some err) | (sid, None) \<Rightarrow>
        (case subslice data 24 40 of Inl p \<Rightarrow> Inl p | Inr b2 \<Rightarrow>
        (case uuid_FromBytes b2 of (_, Some err) \<Rightarrow> Inr (s, Some err) | (uid, None) \<Rightarrow>
        (case subslice data 40 56 of Inl p \<Rightarrow> Inl p | Inr b3 \<Rightarrow>
        (case uuid_FromBytes b3 of (_, Some err) \<Rightarrow> Inr (s, Some err) | (realUID, None) \<Rightarrow>
        (case BigEndian_Uint64 data of Inl p \<Rightarrow> Inl p | Inr w \<Rightarrow>
        (case subslice data 56 (length data) of Inl p \<Rightarrow> Inl p | Inr rest \<Rightarrow>
           Inr (s\<lparr>Valid := True, Time := time_Unix w 0, SID := sid, UID := uid,
                  RealUID := realUID, State := rest\<rparr>, None)))))))))"

text \<open>\<open>func (s *Session) MarshalBinary() ([]byte, error)\<close>.\<close>

definition MarshalBinary :: "Session \<Rightarrow> panic + (byte list \<times> error option)" where
  "MarshalBinary s =
     (case BigEndian_PutUint64 (replicate 8 0) (Time_Unix (Time s)) of Inl p \<Rightarrow> Inl p
      | Inr buf \<Rightarrow>
          Inr (buf @ Rep_uuid (SID s) @ Rep_uuid (UID s) @ Rep_uuid (RealUID s) @ State s, None))"


text \<open>
  The number that eight bytes denote in big-endian order: the first byte is the most
  significant.
\<close>

definition bigEndianValue :: "byte list \<Rightarrow> uint64" where
  "bigEndianValue bs = word_of_nat (foldl (\<lambda>a b. a * 256 + unat b) 0 bs)"

section \<open>Collaborators of the store\<close>

subsection \<open>encoding/base64: the standard encoding, padded\<close>

definition encodeStd :: string where
  "encodeStd = ''ABCDEFGHIJKLMNOPQRSTUVWXYZabcdefghijklmnopqrstuvwxyz0123456789+/''"

definition padChar :: char where
  "padChar = CHR ''=''"

definition encodeChar :: "nat \<Rightarrow> char" where
  "encodeChar i = encodeStd ! i"

fun decodeMapFrom :: "string \<Rightarrow> nat \<Rightarrow> char \<Rightarrow> nat option" where
  "decodeMapFrom [] i c = None"
| "decodeMapFrom (x # xs) i c = (if x = c then Some i else decodeMapFrom xs (Suc i) c)"

definition decodeMap :: "char \<Rightarrow> nat option" where
  "decodeMap c = decodeMapFrom encodeStd 0 c"

text \<open>
  \<open>EncodeToString\<close>: three bytes make a 24-bit value and four characters of six bits
  each; a last group of one or two bytes is padded. The shifts and masks of the library
  are written as arithmetic on \<open>nat\<close>: \<open>b << 16\<close> is \<open>b * 65536\<close>, the bytes of \<open>val\<close> do
  not overlap, so that \<open>|\<close> is \<open>+\<close>, and \<open>val >> 18 & 0x3F\<close> is \<open>val div 262144 mod 64\<close>.
\<close>

fun EncodeToString :: "byte list \<Rightarrow> string" where
  "EncodeToString (a # b # c # rest) =
     (let val = unat a * 65536 + unat b * 256 + unat c
      in encodeChar (val div 262144 mod 64) # encodeChar (val div 4096 mod 64) #
         encodeChar (val div 64 mod 64) # encodeChar (val mod 64) # EncodeToString rest)"
| "EncodeToString [a, b] =
     (let val = unat a * 65536 + unat b * 256
      in [encodeChar (val div 262144 mod 64), encodeChar (val div 4096 mod 64),
          encodeChar (val div 64 mod 64), padChar])"
| "EncodeToString [a] =
     (let val = unat a * 65536
      in [encodeChar (val div 262144 mod 64), encodeChar (val div 4096 mod 64),
          padChar, padChar])"
| "EncodeToString [] = []"

text \<open>
  The bytes of a quantum: \<open>x0 .. x3\<close> are the six-bit values of its characters
  (0 for a padded place), \<open>dlen - 1\<close> bytes are produced. The conversion \<open>byte(val >> 8)\<close>
  keeps the low eight bits, as \<open>word_of_nat\<close> does.
\<close>

definition quantumBytes :: "nat \<Rightarrow> nat \<Rightarrow> nat \<Rightarrow> nat \<Rightarrow> nat \<Rightarrow> byte list" where
  "quantumBytes x0 x1 x2 x3 dlen =
     (let val = x0 * 262144 + x1 * 4096 + x2 * 64 + x3
      in take (dlen - 1) [word_of_nat (val div 65536), word_of_nat (val div 256), word_of_nat val])"

text \<open>
  Decoding, quantum by quantum, as \<open>decodeQuantum\<close> does on input without line breaks:
  a character outside the alphabet that is not the padding is an error; padding is
  legal in the third and fourth place of the last quantum only; input that ends inside
  a quantum is an error. The bytes decoded before an error are returned with it.
\<close>

fun decodeQuanta :: "string \<Rightarrow> byte list \<times> error option" where
  "decodeQuanta [] = ([], None)"
| "decodeQuanta (c0 # c1 # c2 # c3 # rest) =
     (case decodeMap c0 of None \<Rightarrow> ([], Some CorruptInputError) | Some x0 \<Rightarrow>
     (case decodeMap c1 of None \<Rightarrow> ([], Some CorruptInputError) | Some x1 \<Rightarrow>
     (case decodeMap c2 of
        None \<Rightarrow>
          if c2 \<noteq> padChar then ([], Some CorruptInputError)
          else if c3 \<noteq> padChar then ([], Some CorruptInputError)
          else (quantumBytes x0 x1 0 0 2, if rest = [] then None else Some CorruptInputError)
      | Some x2 \<Rightarrow>
         (case decodeMap c3 of
            None \<Rightarrow>
              if c3 \<noteq> padChar then ([], Some CorruptInputError)
              else (quantumBytes x0 x1 x2 0 3, if rest = [] then None else Some CorruptInputError)
          | Some x3 \<Rightarrow>
              (case decodeQuanta rest of (bs, err) \<Rightarrow> (quantumBytes x0 x1 x2 x3 4 @ bs, err))))))"
| "decodeQuanta _ = ([], Some CorruptInputError)"

definition DecodedLen :: "nat \<Rightarrow> nat" where
  "DecodedLen n = n div 4 * 3"

text \<open>\<open>DecodeString\<close>: carriage returns and line feeds are skipped.\<close>

definition DecodeString :: "string \<Rightarrow> byte list \<times> error option" where
  "DecodeString s = decodeQuanta (filter (\<lambda>c. c \<noteq> CHR 0x0A \<and> c \<noteq> CHR 0x0D) s)"

subsection \<open>io and crypto/rand: the random source\<close>

text \<open>
  The random source is the supply of bytes it can still deliver. \<open>io.ReadFull\<close> of \<open>n\<close>
  bytes returns them when the supply holds \<open>n\<close>, and an error otherwise.
\<close>

definition io_ReadFull :: "byte list \<Rightarrow> nat \<Rightarrow> byte list \<times> error option" where
  "io_ReadFull rnd n =
     (if n \<le> length rnd then (take n rnd, None)
      else if rnd = [] then ([], Some EOF)
      else (rnd, Some ErrUnexpectedEOF))"

text \<open>
  Modelled from the spec: \<open>uuid.NewV4\<close> and \<open>uuid.Must\<close> belong to the package
  \<open>github.com/satori/go.uuid\<close>, which is not among the sources. The specification asks
  for a fresh random 128-bit identifier that is not zero: 16 bytes of the random source
  with the version and variant bits of a version 4 identifier set, as the package does.
  When the random source fails \<open>NewV4\<close> returns the error, and \<open>Must\<close> panics with it.
\<close>

definition SetVersion :: "byte list \<Rightarrow> byte \<Rightarrow> byte list" where
  "SetVersion u v = u[6 := (u ! 6 AND 0x0f) OR push_bit 4 v]"

definition SetVariantRFC4122 :: "byte list \<Rightarrow> byte list" where
  "SetVariantRFC4122 u = u[8 := (u ! 8 AND 0x3f) OR 0x80]"

definition uuid_NewV4 :: "byte list \<Rightarrow> uuid \<times> error option" where
  "uuid_NewV4 rnd =
     (case io_ReadFull rnd 16 of
        (_, Some err) \<Rightarrow> (uuid_Nil, Some err)
      | (u, None) \<Rightarrow> (Abs_uuid (SetVariantRFC4122 (SetVersion u 4)), None))"

definition uuid_Must :: "uuid \<times> error option \<Rightarrow> panic + uuid" where
  "uuid_Must r = (case r of (_, Some err) \<Rightarrow> Inl (PanicError err) | (u, None) \<Rightarrow> Inr u)"

subsection \<open>nacl/secretbox: authenticated encryption\<close>

text \<open>
  The cipher of \<open>golang.org/x/crypto/nacl/secretbox\<close> is a parameter of the model:
  \<open>seal message nonce key\<close> is the sealed box, \<open>unseal box nonce key\<close> the message when the
  box is authentic. \<open>secretbox.Seal\<close> appends the box to \<open>out\<close>; \<open>secretbox.Open\<close>
  appends the message to \<open>out\<close> and reports whether the box was authentic.
\<close>

record secretbox =
  seal :: "byte list \<Rightarrow> byte list \<Rightarrow> byte list \<Rightarrow> byte list"
  unseal :: "byte list \<Rightarrow> byte list \<Rightarrow> byte list \<Rightarrow> byte list option"

definition secretbox_Seal ::
  "secretbox \<Rightarrow> byte list \<Rightarrow> byte list \<Rightarrow> byte list \<Rightarrow> byte list \<Rightarrow> byte list" where
  "secretbox_Seal bx out message nonce key = out @ seal bx message nonce key"

definition secretbox_Open ::
  "secretbox \<Rightarrow> byte list \<Rightarrow> byte list \<Rightarrow> byte list \<Rightarrow> byte list \<Rightarrow> byte list \<times> bool" where
  "secretbox_Open bx out box nonce key =
     (case unseal bx box nonce key of None \<Rightarrow> ([], False) | Some m \<Rightarrow> (out @ m, True))"


text \<open>
  An instance of the interface to run the model on: the box is the message behind a
  16-byte tag made of the key and the nonce.
\<close>

definition tagOf :: "byte list \<Rightarrow> byte list \<Rightarrow> byte list" where
  "tagOf nonce key = take 16 (key @ nonce @ replicate 16 0)"

definition testBox :: secretbox where
  "testBox =
     \<lparr>seal = (\<lambda>m n k. tagOf n k @ m),
      unseal = (\<lambda>b n k. if take 16 b = tagOf n k then Some (drop 16 b) else None)\<rparr>"

subsection \<open>net/http: cookies\<close>

text \<open>
  The fields of \<open>http.Cookie\<close> that the program sets; \<open>MaxAge\<close> is an \<open>int\<close>, 64 bits wide.
  A request is the list of the cookies it carries, a response the list of the cookies
  for which it holds a \<open>Set-Cookie\<close> header, in order; the text of the header line is not
  modelled.
\<close>

record Cookie =
  Name :: string
  Value :: string
  Path :: string
  Expires :: Time
  MaxAge :: int64
  Secure :: bool
  HttpOnly :: bool

type_synonym Request = "Cookie list"
type_synonym ResponseWriter = "Cookie list"

definition Request_Cookie :: "Request \<Rightarrow> string \<Rightarrow> Cookie option \<times> error option" where
  "Request_Cookie r name =
     (if name = [] then (None, Some ErrNoCookie)
      else case find (\<lambda>c. Cookie.Name c = name) r of
             None \<Rightarrow> (None, Some ErrNoCookie)
           | Some c \<Rightarrow> (Some c, None))"

text \<open>
  \<open>http.SetCookie\<close> adds the header that \<open>Cookie.String\<close> returns, and nothing when that
  is empty, which it is exactly for a cookie whose name is not valid: the cookie is
  dropped without an error. A name is valid when it is not empty and made of token
  characters only (\<open>isCookieNameValid\<close>, with the table of token characters of
  \<open>httpguts\<close>); \<open>CHR 0x27\<close> is the apostrophe and \<open>CHR 0x60\<close> the backquote.
\<close>

definition tokenChars :: string where
  "tokenChars =
     ''!#$%&*+-.0123456789ABCDEFGHIJKLMNOPQRSTUVWXYZ^_abcdefghijklmnopqrstuvwxyz|~''
     @ [CHR 0x27, CHR 0x60]"

definition isTokenChar :: "char \<Rightarrow> bool" where
  "isTokenChar c = (c \<in> set tokenChars)"

definition isCookieNameValid :: "string \<Rightarrow> bool" where
  "isCookieNameValid raw = (raw \<noteq> [] \<and> list_all isTokenChar raw)"

definition http_SetCookie :: "ResponseWriter \<Rightarrow> Cookie \<Rightarrow> ResponseWriter" where
  "http_SetCookie rw c = (if isCookieNameValid (Cookie.Name c) then rw @ [c] else rw)"

section \<open>The session store\<close>

record Store =
  Name :: string
  Secret :: string
  HttpOnly :: bool
  Secure :: bool
  TTL :: Duration
  Key :: "byte list"

text \<open>\<open>Session{SID: uuid.Must(uuid.NewV4())}\<close>, from the random source \<open>rnd\<close>.\<close>

definition newSession :: "byte list \<Rightarrow> panic + Session" where
  "newSession rnd =
     (case uuid_Must (uuid_NewV4 rnd) of Inl p \<Rightarrow> Inl p
      | Inr u \<Rightarrow> Inr (zeroSession\<lparr>SID := u\<rparr>))"

text \<open>
  \<open>func (s *Store) Get(r *http.Request) Session\<close>, with the cipher \<open>bx\<close>, the value \<open>now\<close>
  of \<open>time.Now()\<close> and the random source \<open>rnd\<close>.
  \<open>DecodeString\<close> returns a slice of the buffer it allocates, whose capacity is
  \<open>DecodedLen\<close> of the length of the string and whose bytes past the decoded ones are
  0. The slice expression \<open>encrypted[:24]\<close> is in range up to that capacity, the
  expression \<open>encrypted[24:]\<close> up to the length.
\<close>

definition Get :: "secretbox \<Rightarrow> Store \<Rightarrow> Request \<Rightarrow> Time \<Rightarrow> byte list \<Rightarrow> panic + Session" where
  "Get bx s r now rnd =
     (case Request_Cookie r (Store.Name s) of
        (_, Some err) \<Rightarrow> newSession rnd
      | (None, None) \<Rightarrow> newSession rnd
      | (Some c, None) \<Rightarrow>
         (case DecodeString (Cookie.Value c) of
            (_, Some err) \<Rightarrow> newSession rnd
          | (encrypted, None) \<Rightarrow>
             (let dbuf = encrypted @ replicate (DecodedLen (length (Cookie.Value c)) - length encrypted) 0
              in case subslice dbuf 0 24 of Inl p \<Rightarrow> Inl p | Inr nonce \<Rightarrow>
                (case subslice encrypted 24 (length encrypted) of Inl p \<Rightarrow> Inl p | Inr box \<Rightarrow>
                (case secretbox_Open bx [] box nonce (Key s) of
                   (_, False) \<Rightarrow> newSession rnd
                 | (buf, True) \<Rightarrow>
                    (case UnmarshalBinary zeroSession buf of Inl p \<Rightarrow> Inl p
                     | Inr (_, Some err) \<Rightarrow> newSession rnd
                     | Inr (ss, None) \<Rightarrow>
                         if TTL s <s Time_Sub now (Time ss) then newSession rnd
                         else Inr ss))))))"

text \<open>
  \<open>func (s *Store) Save(rw http.ResponseWriter, ss *Session) error\<close>: the response and
  the session are passed in and returned with the error.
\<close>

definition Save ::
  "secretbox \<Rightarrow> Store \<Rightarrow> ResponseWriter \<Rightarrow> Session \<Rightarrow> Time \<Rightarrow> byte list
     \<Rightarrow> panic + (ResponseWriter \<times> Session \<times> error option)" where
  "Save bx s rw ss now rnd =
     (case io_ReadFull rnd 24 of
        (_, Some err) \<Rightarrow> Inr (rw, ss, Some (CouldntGetRandomNonce err))
      | (nonce, None) \<Rightarrow>
         (let ss1 = ss\<lparr>Time := now\<rparr>
          in case MarshalBinary ss1 of Inl p \<Rightarrow> Inl p
             | Inr (_, Some err) \<Rightarrow> Inr (rw, ss1, Some (CouldntEncodeSession err))
             | Inr (buf, None) \<Rightarrow>
                 Inr (http_SetCookie rw
                        \<lparr>Cookie.Name = Store.Name s,
                         Value = EncodeToString (secretbox_Seal bx nonce buf nonce (Key s)),
                         Path = ''/'',
                         Expires = Time_Add (Time ss1) (TTL s),
                         MaxAge = word_of_int (sint (TTL s) sdiv sint Second),
                         Cookie.Secure = Store.Secure s,
                         Cookie.HttpOnly = Store.HttpOnly s\<rparr>,
                      ss1, None)))"

text \<open>\<open>func (s *Store) Clear(rw http.ResponseWriter)\<close>.\<close>

definition Clear :: "Store \<Rightarrow> ResponseWriter \<Rightarrow> ResponseWriter" where
  "Clear s rw =
     http_SetCookie rw
       \<lparr>Cookie.Name = Store.Name s,
        Value = [],
        Path = ''/'',
        Expires = time_Unix 0 0,
        MaxAge = - 1,
        Cookie.Secure = Store.Secure s,
        Cookie.HttpOnly = Store.HttpOnly s\<rparr>"


text \<open>Sample values, to run the model on.\<close>

definition sampleStore :: Store where
  "sampleStore =
     \<lparr>Store.Name = ''session'', Secret = ''s3cr3t'', Store.HttpOnly = True,
      Store.Secure = True, TTL = 1000000000, Key = replicate 32 1\<rparr>"

definition sampleSession :: Session where
  "sampleSession =
     \<lparr>Valid = False, Time = zeroTime, SID = Abs_uuid (replicate 16 1),
      UID = Abs_uuid (replicate 16 2), RealUID = Abs_uuid (replicate 16 3),
      State = [114, 111, 108, 101]\<rparr>"

definition sampleCookie :: "string \<Rightarrow> string \<Rightarrow> Cookie" where
  "sampleCookie n v =
     \<lparr>Cookie.Name = n, Value = v, Path = [], Expires = zeroTime, MaxAge = 0,
      Cookie.Secure = False, Cookie.HttpOnly = False\<rparr>"

section \<open>Properties of the collaborators\<close>

subsection \<open>Slices and big-endian integers\<close>

lemma subslice_in_range:
  "lo \<le> hi \<Longrightarrow> hi \<le> length a \<Longrightarrow> subslice a lo hi = Inr (take (hi - lo) (drop lo a))"
  by (simp add: subslice_def)

lemma cat_byte: "push_bit 8 (x :: uint64) OR ucast (b :: byte) = x * 256 + ucast b"
proof -
  have "push_bit 8 x AND (ucast b :: uint64) = 0"
    by (rule bit_word_eqI) (auto simp: bit_simps dest: bit_imp_le_length)
  then have "push_bit 8 x + ucast b = push_bit 8 x OR (ucast b :: uint64)"
    by (rule disjunctive_add_eq_or)
  then show ?thesis by (simp add: push_bit_eq_mult)
qed

lemma be_nested:
  "(ucast (b7::byte) :: uint64) OR push_bit 8 (ucast (b6::byte)) OR push_bit 16 (ucast (b5::byte))
     OR push_bit 24 (ucast (b4::byte)) OR push_bit 32 (ucast (b3::byte))
     OR push_bit 40 (ucast (b2::byte)) OR push_bit 48 (ucast (b1::byte))
     OR push_bit 56 (ucast (b0::byte))
   = push_bit 8 (push_bit 8 (push_bit 8 (push_bit 8 (push_bit 8 (push_bit 8 (push_bit 8
       (ucast b0) OR ucast b1) OR ucast b2) OR ucast b3) OR ucast b4) OR ucast b5) OR ucast b6)
       OR ucast b7"
  by (simp add: ac_simps)

lemma Uint64_bigEndianValue:
  "BigEndian_Uint64 (b0 # b1 # b2 # b3 # b4 # b5 # b6 # b7 # rest) =
     Inr (bigEndianValue [b0, b1, b2, b3, b4, b5, b6, b7])"
  unfolding BigEndian_Uint64.simps be_nested cat_byte
  by (simp add: bigEndianValue_def)

lemma list8:
  assumes "8 \<le> length (data :: 'a list)"
  obtains b0 b1 b2 b3 b4 b5 b6 b7 rest
  where "data = b0 # b1 # b2 # b3 # b4 # b5 # b6 # b7 # rest"
proof -
  from assms obtain b0 d1 where "data = b0 # d1" "7 \<le> length d1" by (cases data) auto
  moreover then obtain b1 d2 where "d1 = b1 # d2" "6 \<le> length d2" by (cases d1) auto
  moreover then obtain b2 d3 where "d2 = b2 # d3" "5 \<le> length d3" by (cases d2) auto
  moreover then obtain b3 d4 where "d3 = b3 # d4" "4 \<le> length d4" by (cases d3) auto
  moreover then obtain b4 d5 where "d4 = b4 # d5" "3 \<le> length d5" by (cases d4) auto
  moreover then obtain b5 d6 where "d5 = b5 # d6" "2 \<le> length d6" by (cases d5) auto
  moreover then obtain b6 d7 where "d6 = b6 # d7" "1 \<le> length d7" by (cases d6) auto
  moreover then obtain b7 d8 where "d7 = b7 # d8" by (cases d7) auto
  ultimately show thesis using that by blast
qed

lemma Uint64_take8:
  assumes "8 \<le> length data"
  shows "BigEndian_Uint64 data = Inr (bigEndianValue (take 8 data))"
proof -
  from assms obtain b0 b1 b2 b3 b4 b5 b6 b7 rest
    where d: "data = b0 # b1 # b2 # b3 # b4 # b5 # b6 # b7 # rest"
    by (rule list8)
  show ?thesis unfolding d Uint64_bigEndianValue by simp
qed

lemma be_part:
  "push_bit k (ucast (ucast (drop_bit k (v::uint64)) :: byte) :: uint64) = v AND push_bit k (mask 8)"
  by (rule bit_word_eqI) (auto simp: bit_simps)

lemma be_part0: "(ucast (ucast (v::uint64) :: byte) :: uint64) = v AND mask 8"
  using be_part [of 0 v] by simp

lemma be_part1: "push_bit k (drop_bit k (v::uint64) AND mask 8) = v AND push_bit k (mask 8)"
  using be_part [of k v] unfolding be_part0 .

lemma be_masks:
  "(mask 8 :: uint64) OR push_bit 8 (mask 8) OR push_bit 16 (mask 8) OR push_bit 24 (mask 8)
     OR push_bit 32 (mask 8) OR push_bit 40 (mask 8) OR push_bit 48 (mask 8)
     OR push_bit 56 (mask 8) = - 1"
  by (simp add: mask_eq_exp_minus_1)

lemma be_bytes_of_word:
  "(ucast (ucast (v::uint64) :: byte) :: uint64)
     OR push_bit 8 (ucast (ucast (drop_bit 8 v) :: byte))
     OR push_bit 16 (ucast (ucast (drop_bit 16 v) :: byte))
     OR push_bit 24 (ucast (ucast (drop_bit 24 v) :: byte))
     OR push_bit 32 (ucast (ucast (drop_bit 32 v) :: byte))
     OR push_bit 40 (ucast (ucast (drop_bit 40 v) :: byte))
     OR push_bit 48 (ucast (ucast (drop_bit 48 v) :: byte))
     OR push_bit 56 (ucast (ucast (drop_bit 56 v) :: byte)) = v"
proof -
  have "v AND ((mask 8 :: uint64) OR push_bit 8 (mask 8) OR push_bit 16 (mask 8)
          OR push_bit 24 (mask 8) OR push_bit 32 (mask 8) OR push_bit 40 (mask 8)
          OR push_bit 48 (mask 8) OR push_bit 56 (mask 8)) = v"
    unfolding be_masks by simp
  then show ?thesis
    unfolding be_part0 be_part1 bit.conj_disj_distrib .
qed

lemma PutUint64_then_Uint64:
  "BigEndian_PutUint64 (replicate 8 0) v = Inr bs \<Longrightarrow>
     length bs = 8 \<and> BigEndian_Uint64 (bs @ rest) = Inr v"
  by (auto simp: BigEndian_PutUint64_def be_bytes_of_word)

lemma PutUint64_returns: "\<exists>bs. BigEndian_PutUint64 (replicate 8 0) v = Inr bs"
  by (simp add: BigEndian_PutUint64_def)

subsection \<open>Instants\<close>

lemma time_Unix_0: "time_Unix s 0 = unixTime s 0"
  by (simp add: time_Unix_def)

lemma time_Unix_Time_Unix: "time_Unix (Time_Unix t) 0 = t\<lparr>nsec := 0\<rparr>"
  by (simp add: time_Unix_0 unixTime_def Time_Unix_def internalToUnix_def)

lemma Time_Unix_time_Unix: "Time_Unix (time_Unix s 0) = s"
  by (simp add: time_Unix_0 unixTime_def Time_Unix_def internalToUnix_def)

subsection \<open>Identifiers\<close>

lemma length_Rep_uuid: "length (Rep_uuid u) = 16"
  using Rep_uuid [of u] by simp

lemma Rep_Abs_uuid: "length bs = 16 \<Longrightarrow> Rep_uuid (Abs_uuid bs) = bs"
  by (simp add: Abs_uuid_inverse)

lemma FromBytes_16: "length b = 16 \<Longrightarrow> uuid_FromBytes b = (Abs_uuid b, None)"
  by (simp add: uuid_FromBytes_def)

section \<open>Properties of the codec\<close>

lemma UnmarshalBinary_short:
  "length data < 56 \<Longrightarrow> UnmarshalBinary s data = Inr (s, Some ErrTooShort)"
  by (simp add: UnmarshalBinary_def)

lemma UnmarshalBinary_long:
  assumes "56 \<le> length data"
  shows "UnmarshalBinary s data =
     Inr (s\<lparr>Valid := True, Time := time_Unix (bigEndianValue (take 8 data)) 0,
            SID := Abs_uuid (take 16 (drop 8 data)), UID := Abs_uuid (take 16 (drop 24 data)),
            RealUID := Abs_uuid (take 16 (drop 40 data)), State := drop 56 data\<rparr>, None)"
proof -
  have s1: "subslice data 8 24 = Inr (take 16 (drop 8 data))"
    and s2: "subslice data 24 40 = Inr (take 16 (drop 24 data))"
    and s3: "subslice data 40 56 = Inr (take 16 (drop 40 data))"
    and s4: "subslice data 56 (length data) = Inr (drop 56 data)"
    using assms by (simp_all add: subslice_in_range)
  have u1: "uuid_FromBytes (take 16 (drop 8 data)) = (Abs_uuid (take 16 (drop 8 data)), None)"
    and u2: "uuid_FromBytes (take 16 (drop 24 data)) = (Abs_uuid (take 16 (drop 24 data)), None)"
    and u3: "uuid_FromBytes (take 16 (drop 40 data)) = (Abs_uuid (take 16 (drop 40 data)), None)"
    using assms by (simp_all add: FromBytes_16)
  have w: "BigEndian_Uint64 data = Inr (bigEndianValue (take 8 data))"
    using assms by (simp add: Uint64_take8)
  have "\<not> length data < 8 + 16 + 16 + 16" using assms by simp
  then show ?thesis
    unfolding UnmarshalBinary_def by (simp add: s1 s2 s3 s4 u1 u2 u3 w)
qed

lemma MarshalBinary_layout:
  "\<exists>b8. length b8 = 8 \<and>
     (\<forall>rest. BigEndian_Uint64 (b8 @ rest) = Inr (Time_Unix (Time s))) \<and>
     MarshalBinary s =
       Inr (b8 @ Rep_uuid (SID s) @ Rep_uuid (UID s) @ Rep_uuid (RealUID s) @ State s, None)"
proof -
  obtain b8 where p: "BigEndian_PutUint64 (replicate 8 0) (Time_Unix (Time s)) = Inr b8"
    using PutUint64_returns by blast
  have "length b8 = 8" and "\<And>rest. BigEndian_Uint64 (b8 @ rest) = Inr (Time_Unix (Time s))"
    using PutUint64_then_Uint64 [OF p] by simp_all
  moreover have "MarshalBinary s =
      Inr (b8 @ Rep_uuid (SID s) @ Rep_uuid (UID s) @ Rep_uuid (RealUID s) @ State s, None)"
    by (simp add: MarshalBinary_def p)
  ultimately show ?thesis by blast
qed

lemma UnmarshalBinary_MarshalBinary:
  assumes "MarshalBinary s = Inr (buf, err)"
  shows "err = None \<and> 56 \<le> length buf \<and>
         UnmarshalBinary r buf =
           Inr (r\<lparr>Valid := True, Time := (Time s)\<lparr>nsec := 0\<rparr>, SID := SID s, UID := UID s,
                  RealUID := RealUID s, State := State s\<rparr>, None)"
proof -
  obtain b8 where l: "length b8 = 8"
    and w: "\<And>rest. BigEndian_Uint64 (b8 @ rest) = Inr (Time_Unix (Time s))"
    and m: "MarshalBinary s =
          Inr (b8 @ Rep_uuid (SID s) @ Rep_uuid (UID s) @ Rep_uuid (RealUID s) @ State s, None)"
    using MarshalBinary_layout [of s] by blast
  from assms m have buf: "buf = b8 @ Rep_uuid (SID s) @ Rep_uuid (UID s) @ Rep_uuid (RealUID s) @ State s"
    and err: "err = None" by simp_all
  have len: "56 \<le> length buf" unfolding buf by (simp add: l length_Rep_uuid)
  have "BigEndian_Uint64 buf = Inr (Time_Unix (Time s))" unfolding buf by (rule w)
  moreover have "BigEndian_Uint64 buf = Inr (bigEndianValue (take 8 buf))"
    using len by (simp add: Uint64_take8)
  ultimately have t: "bigEndianValue (take 8 buf) = Time_Unix (Time s)" by simp
  have f1: "take 16 (drop 8 buf) = Rep_uuid (SID s)"
    and f2: "take 16 (drop 24 buf) = Rep_uuid (UID s)"
    and f3: "take 16 (drop 40 buf) = Rep_uuid (RealUID s)"
    and f4: "drop 56 buf = State s"
    unfolding buf by (simp_all add: l length_Rep_uuid)
  show ?thesis
    unfolding UnmarshalBinary_long [OF len] t f1 f2 f3 f4
    by (simp add: err len Rep_uuid_inverse time_Unix_Time_Unix)
qed


section \<open>Properties of durations and of the base64 encoding\<close>

subsection \<open>Durations\<close>

lemma sint_word_of_int_64:
  "- (2 ^ 63) \<le> d \<Longrightarrow> d < 2 ^ 63 \<Longrightarrow> sint (word_of_int d :: int64) = d"
  by (simp add: signed_of_int signed_take_bit_int_eq_self)

lemma sint_Time_Sub:
  "sint (Time_Sub t u) = max minDuration (min maxDuration (instant t - instant u))"
proof -
  define d where "d = instant t - instant u"
  have s: "Time_Sub t u =
     (if d < minDuration then word_of_int minDuration
      else if maxDuration < d then word_of_int maxDuration else word_of_int d)"
    by (simp add: Time_Sub_def d_def)
  have "sint (Time_Sub t u) = max minDuration (min maxDuration d)"
    unfolding s using sint_word_of_int_64 [of d]
    by (simp add: minDuration_def maxDuration_def sint_word_of_int_64)
  then show ?thesis by (simp add: d_def)
qed

lemma sint_range_64: "- (2 ^ 63) \<le> sint (w :: int64)" "sint (w :: int64) < 2 ^ 63"
  using sint_ge [of w] sint_lt [of w] by simp_all

lemma Time_Sub_exceeds:
  "sint T < maxDuration \<Longrightarrow> (T <s Time_Sub t u) = (sint T < instant t - instant u)"
  using sint_range_64 [of T]
  by (auto simp: word_sless_alt sint_Time_Sub minDuration_def maxDuration_def)



subsection \<open>The standard base64 encoding decodes what it encodes\<close>












lemma pad_notin: "padChar \<notin> set encodeStd"
  by (simp add: encodeStd_def padChar_def)









section \<open>Properties of the store\<close>

lemma Request_Cookie_absent:
  "\<forall>c\<in>set r. Cookie.Name c \<noteq> n \<Longrightarrow> Request_Cookie r n = (None, Some ErrNoCookie)"
proof -
  assume "\<forall>c\<in>set r. Cookie.Name c \<noteq> n"
  then have "find (\<lambda>c. Cookie.Name c = n) r = None" by (simp add: find_None_iff)
  then show ?thesis by (simp add: Request_Cookie_def)
qed

lemma Get_no_cookie:
  "\<forall>c\<in>set r. Cookie.Name c \<noteq> Store.Name s \<Longrightarrow> Get bx s r now rnd = newSession rnd"
  by (simp add: Get_def Request_Cookie_absent)

lemma length_v4: "length (SetVariantRFC4122 (SetVersion u v)) = length u"
  by (simp add: SetVariantRFC4122_def SetVersion_def)

lemma v4_byte6: "6 < length u \<Longrightarrow> SetVariantRFC4122 (SetVersion u 4) ! 6 = (u ! 6 AND 0x0f) OR 0x40"
  by (simp add: SetVariantRFC4122_def SetVersion_def)

lemma v4_nonzero:
  assumes "length u = 16"
  shows "Abs_uuid (SetVariantRFC4122 (SetVersion u 4)) \<noteq> uuid_Nil"
proof
  assume "Abs_uuid (SetVariantRFC4122 (SetVersion u 4)) = uuid_Nil"
  then have "SetVariantRFC4122 (SetVersion u 4) = replicate 16 0"
    unfolding uuid_Nil_def using assms by (simp add: Abs_uuid_inject length_v4)
  then have "SetVariantRFC4122 (SetVersion u 4) ! 6 = 0" by simp
  then have "(u ! 6 AND 0x0f) OR (0x40 :: byte) = 0" using assms by (simp add: v4_byte6)
  then have "(0x40 :: byte) = 0" by (simp only: or_eq_0_iff)
  then show False by simp
qed

lemma newSession_returns:
  "16 \<le> length rnd \<Longrightarrow>
     newSession rnd =
       Inr (zeroSession\<lparr>SID := Abs_uuid (SetVariantRFC4122 (SetVersion (take 16 rnd) 4))\<rparr>)"
  by (simp add: newSession_def uuid_Must_def uuid_NewV4_def io_ReadFull_def)

lemma newSession_panics:
  "length rnd < 16 \<Longrightarrow> \<exists>e. newSession rnd = Inl (PanicError e)"
  by (simp add: newSession_def uuid_Must_def uuid_NewV4_def io_ReadFull_def)

lemma Get_short:
  assumes "Request_Cookie r (Store.Name s) = (Some c, None)"
    and "DecodeString (Value c) = (enc, None)" and "length enc < 24"
  shows "Get bx s r now rnd = Inl SliceBoundsOutOfRange"
  using assms by (simp add: Get_def subslice_def Let_def)


lemma Save_fails:
  "length rnd < 24 \<Longrightarrow>
     \<exists>e. io_ReadFull rnd 24 = (take 24 rnd, Some e) \<and>
         Save bx s rw ss now rnd = Inr (rw, ss, Some (CouldntGetRandomNonce e))"
  by (simp add: Save_def io_ReadFull_def)

lemma Save_succeeds:
  assumes "24 \<le> length rnd"
  shows "\<exists>buf. MarshalBinary (ss\<lparr>Time := now\<rparr>) = Inr (buf, None) \<and>
     io_ReadFull rnd 24 = (take 24 rnd, None) \<and>
     Save bx s rw ss now rnd =
       Inr (http_SetCookie rw
              \<lparr>Cookie.Name = Store.Name s,
               Value = EncodeToString (take 24 rnd @ seal bx buf (take 24 rnd) (Key s)),
               Path = ''/'',
               Expires = Time_Add now (TTL s),
               MaxAge = word_of_int (sint (TTL s) sdiv 1000000000),
               Cookie.Secure = Store.Secure s,
               Cookie.HttpOnly = Store.HttpOnly s\<rparr>,
            ss\<lparr>Time := now\<rparr>, None)"
proof -
  obtain buf where m: "MarshalBinary (ss\<lparr>Time := now\<rparr>) = Inr (buf, None)"
    using MarshalBinary_layout [of "ss\<lparr>Time := now\<rparr>"] by blast
  show ?thesis
    using assms
    by (simp add: Save_def io_ReadFull_def m Let_def secretbox_Seal_def Second_def)
qed

lemma http_SetCookie_valid:
  "isCookieNameValid (Cookie.Name c) \<Longrightarrow> http_SetCookie rw c = rw @ [c]"
  by (simp add: http_SetCookie_def)

lemma http_SetCookie_dropped:
  "\<not> isCookieNameValid (Cookie.Name c) \<Longrightarrow> http_SetCookie rw c = rw"
  by (simp add: http_SetCookie_def)

lemma valid_name_session: "isCookieNameValid ''session''"
  by (simp add: isCookieNameValid_def isTokenChar_def tokenChars_def)

lemma invalid_name_empty: "\<not> isCookieNameValid []"
  by (simp add: isCookieNameValid_def)

lemma invalid_name_colon: "\<not> isCookieNameValid ''app:session''"
  by (simp add: isCookieNameValid_def isTokenChar_def tokenChars_def)



lemma DecodeString_AAAA: "DecodeString ''AAAA'' = ([0, 0, 0], None)"
  by (simp add: DecodeString_def decodeMap_def encodeStd_def quantumBytes_def)

lemma DecodeString_empty: "DecodeString [] = ([], None)"
  by (simp add: DecodeString_def)

lemma Request_Cookie_single:
  "n \<noteq> [] \<Longrightarrow> Request_Cookie [sampleCookie n v] n = (Some (sampleCookie n v), None)"
  by (simp add: Request_Cookie_def sampleCookie_def)




section \<open>The claims\<close>

text \<open>
  Claim C1. Decoding the encoding of a session succeeds, for any receiver \<open>r\<close>: it sets
  \<open>Valid\<close>, reproduces \<open>SID\<close>, \<open>UID\<close>, \<open>RealUID\<close> and \<open>State\<close>, and reproduces \<open>Time\<close> with
  the nanoseconds dropped, so with the same count of seconds since 1970. The three
  identifiers are 16 bytes each by their type.
\<close>

theorem MarshalBinary_UnmarshalBinary_roundtrip:
  "\<exists>buf. MarshalBinary s = Inr (buf, None) \<and>
     UnmarshalBinary r buf =
       Inr (r\<lparr>Valid := True, Time := (Time s)\<lparr>nsec := 0\<rparr>, SID := SID s, UID := UID s,
              RealUID := RealUID s, State := State s\<rparr>, None) \<and>
     Time_Unix ((Time s)\<lparr>nsec := 0\<rparr>) = Time_Unix (Time s) \<and>
     length (Rep_uuid (SID s)) = 16 \<and> length (Rep_uuid (UID s)) = 16 \<and>
     length (Rep_uuid (RealUID s)) = 16"
proof -
  obtain buf err where m: "MarshalBinary s = Inr (buf, err)"
    using MarshalBinary_layout [of s] by blast
  from UnmarshalBinary_MarshalBinary [OF m, of r] m show ?thesis
    by (simp add: Time_Unix_def length_Rep_uuid)
qed

text \<open>
  Claim C3. \<open>UnmarshalBinary\<close> returns \<open>ErrTooShort\<close> exactly on inputs shorter than 56
  bytes. On an input of at least 56 bytes it returns no error and sets \<open>Valid\<close>; \<open>Time\<close>
  is the instant whose count of seconds since 1970 is the big-endian value of bytes
  0 to 7, \<open>SID\<close>, \<open>UID\<close> and \<open>RealUID\<close> are bytes 8 to 23, 24 to 39 and 40 to 55, and
  \<open>State\<close> is the rest, which may be empty.
\<close>

theorem UnmarshalBinary_TooShort_and_layout:
  "((\<exists>s'. UnmarshalBinary s data = Inr (s', Some ErrTooShort)) \<longleftrightarrow> length data < 56) \<and>
   (56 \<le> length data \<longrightarrow>
      UnmarshalBinary s data =
        Inr (s\<lparr>Valid := True, Time := time_Unix (bigEndianValue (take 8 data)) 0,
               SID := Abs_uuid (take 16 (drop 8 data)),
               UID := Abs_uuid (take 16 (drop 24 data)),
               RealUID := Abs_uuid (take 16 (drop 40 data)),
               State := drop 56 data\<rparr>, None) \<and>
      Rep_uuid (Abs_uuid (take 16 (drop 8 data))) = take 16 (drop 8 data) \<and>
      Rep_uuid (Abs_uuid (take 16 (drop 24 data))) = take 16 (drop 24 data) \<and>
      Rep_uuid (Abs_uuid (take 16 (drop 40 data))) = take 16 (drop 40 data))"
proof (cases "length data < 56")
  case True
  then show ?thesis by (simp add: UnmarshalBinary_short)
next
  case False
  then have "56 \<le> length data" by simp
  then show ?thesis by (simp add: UnmarshalBinary_long Rep_Abs_uuid)
qed

theorem UnmarshalBinary_TooShort_and_layout_witness:
  "(\<exists>s'. UnmarshalBinary zeroSession [1, 2, 3] = Inr (s', Some ErrTooShort)) \<and>
   UnmarshalBinary zeroSession
     ([0, 0, 0, 0, 0, 0, 1, 2] @ replicate 16 1 @ replicate 16 2 @ replicate 16 3 @ [9]) =
     Inr (\<lparr>Valid = True, Time = time_Unix 258 0, SID = Abs_uuid (replicate 16 1),
           UID = Abs_uuid (replicate 16 2), RealUID = Abs_uuid (replicate 16 3),
           State = [9]\<rparr>, None) \<and>
   Rep_uuid (Abs_uuid (replicate 16 1)) = replicate 16 1"
  using UnmarshalBinary_TooShort_and_layout [of zeroSession "[1, 2, 3]"]
    UnmarshalBinary_TooShort_and_layout [of zeroSession
      "[0, 0, 0, 0, 0, 0, 1, 2] @ replicate 16 1 @ replicate 16 2 @ replicate 16 3 @ [9]"]
  by (simp add: bigEndianValue_def zeroSession_def)

text \<open>
  Claim C9. When \<open>UnmarshalBinary\<close> returns an error, the receiver it returns is the
  receiver it was given: no field has been written.
\<close>

theorem UnmarshalBinary_error_leaves_receiver:
  "UnmarshalBinary s data = Inr (s', err) \<Longrightarrow> err \<noteq> None \<Longrightarrow> s' = s"
proof (cases "length data < 56")
  case True
  assume "UnmarshalBinary s data = Inr (s', err)"
  with True show ?thesis by (simp add: UnmarshalBinary_short)
next
  case False
  assume "UnmarshalBinary s data = Inr (s', err)" and "err \<noteq> None"
  with False show ?thesis by (simp add: UnmarshalBinary_long)
qed

theorem UnmarshalBinary_error_leaves_receiver_witness:
  "UnmarshalBinary sampleSession [1, 2, 3] = Inr (sampleSession, Some ErrTooShort) \<and>
   Some ErrTooShort \<noteq> None"
proof -
  have h: "UnmarshalBinary sampleSession [1, 2, 3] = Inr (sampleSession, Some ErrTooShort)"
    by (simp add: UnmarshalBinary_def)
  have n: "Some ErrTooShort \<noteq> None" by simp
  from UnmarshalBinary_error_leaves_receiver [OF h n] h n show ?thesis by simp
qed

text \<open>
  Claim C10. Parsing a slice of exactly 16 bytes as an identifier returns no error, so
  on every input of at least 56 bytes \<open>UnmarshalBinary\<close> returns no error, and the only
  error it ever returns is \<open>ErrTooShort\<close>, on an input shorter than 56 bytes.
\<close>

theorem UnmarshalBinary_fails_only_TooShort:
  "(length b = 16 \<longrightarrow> snd (uuid_FromBytes b) = None) \<and>
   (56 \<le> length data \<longrightarrow> (\<exists>s'. UnmarshalBinary s data = Inr (s', None))) \<and>
   (UnmarshalBinary s data' = Inr (s', Some e) \<longrightarrow> e = ErrTooShort \<and> length data' < 56)"
proof (intro conjI impI)
  assume "length b = 16"
  then show "snd (uuid_FromBytes b) = None" by (simp add: FromBytes_16)
next
  assume "56 \<le> length data"
  then show "\<exists>s'. UnmarshalBinary s data = Inr (s', None)" by (simp add: UnmarshalBinary_long)
next
  assume a: "UnmarshalBinary s data' = Inr (s', Some e)"
  show "e = ErrTooShort"
  proof (cases "length data' < 56")
    case True
    with a show ?thesis by (simp add: UnmarshalBinary_short)
  next
    case False
    with a show ?thesis by (simp add: UnmarshalBinary_long)
  qed
  show "length data' < 56"
  proof (rule ccontr)
    assume "\<not> length data' < 56"
    with a show False by (simp add: UnmarshalBinary_long)
  qed
qed

theorem UnmarshalBinary_fails_only_TooShort_witness:
  "length (replicate 16 (5::byte)) = 16 \<and> snd (uuid_FromBytes (replicate 16 5)) = None \<and>
   56 \<le> length (replicate 60 (5::byte)) \<and>
   (\<exists>s'. UnmarshalBinary zeroSession (replicate 60 5) = Inr (s', None)) \<and>
   UnmarshalBinary zeroSession (replicate 55 5) = Inr (zeroSession, Some ErrTooShort) \<and>
   length (replicate 55 (5::byte)) < 56"
  using UnmarshalBinary_fails_only_TooShort
    [of "replicate 16 5" "replicate 60 5" zeroSession "replicate 55 5" zeroSession ErrTooShort]
  by (simp add: UnmarshalBinary_def)

text \<open>
  Claim C2, which the code breaks. A cookie whose value decodes, as base64, to fewer
  than 24 bytes makes \<open>Get\<close> panic at the slice expressions that split off the nonce,
  whatever the cipher, the clock and the random source: here the values \<open>AAAA\<close>
  (3 bytes) and the empty value (0 bytes), under the name of the store.
\<close>

theorem Get_panics_on_short_cookie:
  "Get bx sampleStore [sampleCookie ''session'' ''AAAA''] now rnd = Inl SliceBoundsOutOfRange \<and>
   Get bx sampleStore [sampleCookie ''session'' ''''] now rnd = Inl SliceBoundsOutOfRange"
proof -
  have n: "Store.Name sampleStore = ''session''" by (simp add: sampleStore_def)
  have c1: "Request_Cookie [sampleCookie ''session'' ''AAAA''] (Store.Name sampleStore) =
      (Some (sampleCookie ''session'' ''AAAA''), None)"
    unfolding n by (simp add: Request_Cookie_single)
  have c2: "Request_Cookie [sampleCookie ''session'' ''''] (Store.Name sampleStore) =
      (Some (sampleCookie ''session'' ''''), None)"
    unfolding n by (simp add: Request_Cookie_single)
  have d1: "DecodeString (Value (sampleCookie ''session'' ''AAAA'')) = ([0, 0, 0], None)"
    by (simp add: sampleCookie_def DecodeString_AAAA)
  have d2: "DecodeString (Value (sampleCookie ''session'' '''')) = ([], None)"
    by (simp add: sampleCookie_def DecodeString_empty)
  show ?thesis
    using Get_short [OF c1 d1] Get_short [OF c2 d2] by simp
qed




text \<open>
  Claim C5, as amended. \<open>Save\<close> returns an error exactly when reading 24 bytes from the
  random source returns one. Then the error is returned, made from that of the random
  source, and the response and the session are as they were. Otherwise \<open>Save\<close> returns
  no error and stamps the session; the response has one more cookie, under the name of
  the store, when that name is a valid cookie name, and is as it was when the name is
  not valid. \<open>Save\<close> never panics.
\<close>

theorem Save_fails_iff_random_source_fails:
  "((\<exists>rw' ss' e. Save bx s rw ss now rnd = Inr (rw', ss', Some e)) \<longleftrightarrow>
      snd (io_ReadFull rnd 24) \<noteq> None) \<and>
   (snd (io_ReadFull rnd 24) \<noteq> None \<longrightarrow>
      (\<exists>e. snd (io_ReadFull rnd 24) = Some e \<and>
           Save bx s rw ss now rnd = Inr (rw, ss, Some (CouldntGetRandomNonce e)))) \<and>
   (snd (io_ReadFull rnd 24) = None \<and> isCookieNameValid (Store.Name s) \<longrightarrow>
      (\<exists>c. Save bx s rw ss now rnd = Inr (rw @ [c], ss\<lparr>Time := now\<rparr>, None) \<and>
           Cookie.Name c = Store.Name s)) \<and>
   (snd (io_ReadFull rnd 24) = None \<and> \<not> isCookieNameValid (Store.Name s) \<longrightarrow>
      Save bx s rw ss now rnd = Inr (rw, ss\<lparr>Time := now\<rparr>, None))"
proof (cases "length rnd < 24")
  case True
  with Save_fails [OF True, of bx s rw ss now] show ?thesis
    by auto
next
  case False
  then have l: "24 \<le> length rnd" by simp
  show ?thesis
  proof (cases "isCookieNameValid (Store.Name s)")
    case True
    with Save_succeeds [OF l, where ss = ss and now = now and bx = bx and s = s and rw = rw]
    show ?thesis
      by (auto simp: http_SetCookie_valid)
  next
    case False
    with Save_succeeds [OF l, where ss = ss and now = now and bx = bx and s = s and rw = rw]
    show ?thesis
      by (auto simp: http_SetCookie_dropped)
  qed
qed

theorem Save_fails_iff_random_source_fails_witness:
  "snd (io_ReadFull [] 24) \<noteq> None \<and>
   Save testBox sampleStore [] sampleSession zeroTime [] =
     Inr ([], sampleSession, Some (CouldntGetRandomNonce EOF)) \<and>
   snd (io_ReadFull (replicate 24 7) 24) = None \<and>
   isCookieNameValid (Store.Name sampleStore) \<and>
   (\<exists>c. Save testBox sampleStore [] sampleSession zeroTime (replicate 24 7) =
          Inr ([c], sampleSession\<lparr>Time := zeroTime\<rparr>, None) \<and>
        Cookie.Name c = ''session'') \<and>
   \<not> isCookieNameValid (Store.Name (sampleStore\<lparr>Store.Name := ''app:session''\<rparr>)) \<and>
   Save testBox (sampleStore\<lparr>Store.Name := ''app:session''\<rparr>) [] sampleSession zeroTime
       (replicate 24 7) =
     Inr ([], sampleSession\<lparr>Time := zeroTime\<rparr>, None)"
  using Save_fails_iff_random_source_fails [of testBox sampleStore "[]" sampleSession zeroTime "[]"]
    Save_fails_iff_random_source_fails
      [of testBox sampleStore "[]" sampleSession zeroTime "replicate 24 7"]
    Save_fails_iff_random_source_fails
      [of testBox "sampleStore\<lparr>Store.Name := ''app:session''\<rparr>" "[]" sampleSession zeroTime
        "replicate 24 7"]
    valid_name_session invalid_name_colon
  by (simp add: io_ReadFull_def sampleStore_def)

text \<open>
  Claim C5 as it was stated fails. With a random source that delivers the 24 bytes and
  a store whose name is empty, or holds a colon, \<open>Save\<close> returns no error and the
  response has no cookie.
\<close>

theorem Save_sets_no_cookie_counterexample:
  "snd (io_ReadFull (replicate 24 7) 24) = None \<and>
   Save testBox (sampleStore\<lparr>Store.Name := []\<rparr>) [] sampleSession zeroTime (replicate 24 7) =
     Inr ([], sampleSession\<lparr>Time := zeroTime\<rparr>, None) \<and>
   Save testBox (sampleStore\<lparr>Store.Name := ''app:session''\<rparr>) [] sampleSession zeroTime
       (replicate 24 7) =
     Inr ([], sampleSession\<lparr>Time := zeroTime\<rparr>, None)"
proof -
  have l: "24 \<le> length (replicate 24 (7::byte))" by simp
  have a: "Save testBox (sampleStore\<lparr>Store.Name := []\<rparr>) [] sampleSession zeroTime
       (replicate 24 7) = Inr ([], sampleSession\<lparr>Time := zeroTime\<rparr>, None)"
    using Save_succeeds [OF l, where ss = sampleSession and now = zeroTime and bx = testBox
        and s = "sampleStore\<lparr>Store.Name := []\<rparr>" and rw = "[]"] invalid_name_empty
    by (auto simp: http_SetCookie_dropped)
  have b: "Save testBox (sampleStore\<lparr>Store.Name := ''app:session''\<rparr>) [] sampleSession zeroTime
       (replicate 24 7) = Inr ([], sampleSession\<lparr>Time := zeroTime\<rparr>, None)"
    using Save_succeeds [OF l, where ss = sampleSession and now = zeroTime and bx = testBox
        and s = "sampleStore\<lparr>Store.Name := ''app:session''\<rparr>" and rw = "[]"] invalid_name_colon
    by (auto simp: http_SetCookie_dropped)
  show ?thesis using a b by (simp add: io_ReadFull_def)
qed

text \<open>
  Claim C6. When \<open>Save\<close> returns no error, the session it returns is the session it was
  given with \<open>Time\<close> set to the current time: \<open>Valid\<close>, \<open>SID\<close>, \<open>UID\<close>, \<open>RealUID\<close> and
  \<open>State\<close> are as they were.
\<close>

theorem Save_changes_only_Time:
  "Save bx s rw ss now rnd = Inr (rw', ss', None) \<Longrightarrow>
     ss' = ss\<lparr>Time := now\<rparr> \<and> Time ss' = now \<and> Valid ss' = Valid ss \<and> SID ss' = SID ss \<and>
     UID ss' = UID ss \<and> RealUID ss' = RealUID ss \<and> State ss' = State ss"
proof (cases "length rnd < 24")
  case True
  assume "Save bx s rw ss now rnd = Inr (rw', ss', None)"
  with Save_fails [OF True, of bx s rw ss now] show ?thesis by auto
next
  case False
  then have l: "24 \<le> length rnd" by simp
  assume "Save bx s rw ss now rnd = Inr (rw', ss', None)"
  with Save_succeeds [OF l, where ss = ss and now = now and bx = bx and s = s and rw = rw]
  show ?thesis by auto
qed

theorem Save_changes_only_Time_witness:
  "\<exists>rw'. Save testBox sampleStore [] sampleSession \<lparr>sec = 100, nsec = 5\<rparr> (replicate 24 7) =
           Inr (rw', sampleSession\<lparr>Time := \<lparr>sec = 100, nsec = 5\<rparr>\<rparr>, None)"
proof -
  obtain rw' ss' where
    h: "Save testBox sampleStore [] sampleSession \<lparr>sec = 100, nsec = 5\<rparr> (replicate 24 7) =
          Inr (rw', ss', None)"
    using Save_succeeds [where rnd = "replicate 24 7" and ss = sampleSession
        and now = "\<lparr>sec = 100, nsec = 5\<rparr>" and bx = testBox and s = sampleStore and rw = "[]"]
    by auto
  from Save_changes_only_Time [OF h] h show ?thesis by auto
qed

text \<open>
  Claim C7. On a request that carries no cookie under the name of the store, and with
  a random source that delivers 16 bytes, \<open>Get\<close> returns a session with \<open>Valid\<close> false,
  the zero \<open>Time\<close>, zero \<open>UID\<close> and \<open>RealUID\<close>, empty \<open>State\<close>, and a \<open>SID\<close> made
  from those 16 bytes, which is not the zero identifier.
\<close>

theorem Get_without_cookie:
  "Store.Name s \<notin> Cookie.Name ` set r \<Longrightarrow> 16 \<le> length rnd \<Longrightarrow>
     \<exists>sid. Get bx s r now rnd =
             Inr \<lparr>Valid = False, Time = zeroTime, SID = sid, UID = uuid_Nil,
                  RealUID = uuid_Nil, State = []\<rparr> \<and>
           sid = Abs_uuid (SetVariantRFC4122 (SetVersion (take 16 rnd) 4)) \<and>
           Rep_uuid sid = SetVariantRFC4122 (SetVersion (take 16 rnd) 4) \<and>
           sid \<noteq> uuid_Nil"
proof -
  assume a: "Store.Name s \<notin> Cookie.Name ` set r" and l: "16 \<le> length rnd"
  from a have "\<forall>c\<in>set r. Cookie.Name c \<noteq> Store.Name s" by (metis imageI)
  then have "Get bx s r now rnd = newSession rnd" by (rule Get_no_cookie)
  moreover have "Abs_uuid (SetVariantRFC4122 (SetVersion (take 16 rnd) 4)) \<noteq> uuid_Nil"
    using l by (simp add: v4_nonzero)
  moreover have "Rep_uuid (Abs_uuid (SetVariantRFC4122 (SetVersion (take 16 rnd) 4))) =
      SetVariantRFC4122 (SetVersion (take 16 rnd) 4)"
    using l by (simp add: Rep_Abs_uuid length_v4)
  ultimately show ?thesis
    using l by (simp add: newSession_returns zeroSession_def)
qed

theorem Get_without_cookie_witness:
  "Store.Name sampleStore \<notin> Cookie.Name ` set [sampleCookie ''other'' ''AAAA''] \<and>
   16 \<le> length (replicate 16 (255 :: byte)) \<and>
   Get testBox sampleStore [sampleCookie ''other'' ''AAAA''] zeroTime (replicate 16 255) =
     Inr \<lparr>Valid = False, Time = zeroTime,
          SID = Abs_uuid (SetVariantRFC4122 (SetVersion (replicate 16 255) 4)),
          UID = uuid_Nil, RealUID = uuid_Nil, State = []\<rparr> \<and>
   Abs_uuid (SetVariantRFC4122 (SetVersion (replicate 16 255) 4)) \<noteq> uuid_Nil"
  using Get_without_cookie [of sampleStore "[sampleCookie ''other'' ''AAAA'']" "replicate 16 255"
      testBox zeroTime]
  by (simp add: sampleStore_def sampleCookie_def)

text \<open>
  Claim C8, as amended. For every response and every store whose name is a valid
  cookie name, \<open>Clear\<close> adds to the response one cookie: under the name of the store,
  with the path \<open>/\<close>, the flags of the store, the empty value, \<open>MaxAge\<close> -1 and, as
  \<open>Expires\<close>, the first instant of 1970, which is before every later time. For a store
  whose name is not valid the response is as it was. \<open>Clear\<close> takes no session, key
  material, cipher, clock or random source, and returns the response: it has no error
  and no panic to return.
\<close>

theorem Clear_sets_expired_cookie:
  "(isCookieNameValid (Store.Name s) \<longrightarrow>
      Clear s rw =
        rw @ [\<lparr>Cookie.Name = Store.Name s, Value = [], Path = ''/'', Expires = time_Unix 0 0,
               MaxAge = - 1, Cookie.Secure = Store.Secure s,
               Cookie.HttpOnly = Store.HttpOnly s\<rparr>]) \<and>
   (\<not> isCookieNameValid (Store.Name s) \<longrightarrow> Clear s rw = rw) \<and>
   Time_Unix (time_Unix 0 0) = 0 \<and> nsec (time_Unix 0 0) = 0 \<and>
   sint (- 1 :: int64) = - 1 \<and>
   (instant (time_Unix 0 0) < instant now \<longrightarrow> 0 <s Time_Sub now (time_Unix 0 0))"
proof -
  have p: "instant (time_Unix 0 0) < instant now \<Longrightarrow> 0 <s Time_Sub now (time_Unix 0 0)"
    by (simp add: word_sless_alt sint_Time_Sub minDuration_def maxDuration_def)
  have e: "Time_Unix (time_Unix 0 0) = 0" by (rule Time_Unix_time_Unix)
  have n: "nsec (time_Unix 0 0) = 0" by (simp add: time_Unix_0 unixTime_def)
  show ?thesis
    using p by (simp add: Clear_def http_SetCookie_def e n)
qed

theorem Clear_sets_expired_cookie_witness:
  "isCookieNameValid (Store.Name sampleStore) \<and>
   Clear sampleStore [] =
     [\<lparr>Cookie.Name = ''session'', Value = [], Path = ''/'', Expires = time_Unix 0 0,
       MaxAge = - 1, Cookie.Secure = True, Cookie.HttpOnly = True\<rparr>] \<and>
   \<not> isCookieNameValid (Store.Name (sampleStore\<lparr>Store.Name := ''app:session''\<rparr>)) \<and>
   Clear (sampleStore\<lparr>Store.Name := ''app:session''\<rparr>) [] = [] \<and>
   instant (time_Unix 0 0) < instant \<lparr>sec = 63000000000, nsec = 0\<rparr> \<and>
   0 <s Time_Sub \<lparr>sec = 63000000000, nsec = 0\<rparr> (time_Unix 0 0)"
  using Clear_sets_expired_cookie [of sampleStore "[]" "\<lparr>sec = 63000000000, nsec = 0\<rparr>"]
    Clear_sets_expired_cookie [of "sampleStore\<lparr>Store.Name := ''app:session''\<rparr>" "[]"
      "\<lparr>sec = 63000000000, nsec = 0\<rparr>"]
    valid_name_session invalid_name_colon
  by (simp add: sampleStore_def instant_def time_Unix_0 unixTime_def unixToInternal_def)

text \<open>
  Claim C8 as it was stated fails. For a store whose name is empty, or holds a colon,
  \<open>Clear\<close> leaves the response without a cookie.
\<close>

theorem Clear_sets_no_cookie_counterexample:
  "Clear (sampleStore\<lparr>Store.Name := []\<rparr>) [] = [] \<and>
   Clear (sampleStore\<lparr>Store.Name := ''app:session''\<rparr>) [] = []"
  using invalid_name_empty invalid_name_colon
  by (simp add: Clear_def http_SetCookie_dropped)

end
